theory Spec2Isabelle
  imports Main
begin

section \<open>The voice-command interpreter of \<^verbatim>\<open>src/components/VoiceListener.tsx\<close>\<close>

text \<open>
  The component listens for utterances, asks an external text-generation service (the
  Gateway) for the intent of each one, routes it to one interpreter, and applies the
  result to the application: the filter store, the router, the user profile, the product
  page. The embedding keeps the shape of the source: every \<^verbatim>\<open>const f = async (...)\<close>
  of the component is a function of the same name that takes the environment it reads
  and the state it writes, and returns its result with the new state.
\<close>

subsection \<open>JavaScript strings\<close>

text \<open>
  Strings are lists of characters and the text is taken to be ASCII: the catalog, the
  utterances and the phrases of the source are. \<^verbatim>\<open>toLowerCase\<close> maps the letters A to Z.
\<close>

definition lowerChar :: "char \<Rightarrow> char" where
  "lowerChar c =
     (case map_of (zip ''ABCDEFGHIJKLMNOPQRSTUVWXYZ'' ''abcdefghijklmnopqrstuvwxyz'') c of
        Some l \<Rightarrow> l
      | None \<Rightarrow> c)"

definition toLowerCase :: "string \<Rightarrow> string" where
  "toLowerCase s = map lowerChar s"

text \<open>\<^verbatim>\<open>s.startsWith(p)\<close> and \<^verbatim>\<open>s.includes(p)\<close> (\<open>includes\<close> is a keyword of Isabelle, hence the suffix).\<close>

definition startsWith :: "string \<Rightarrow> string \<Rightarrow> bool" where
  "startsWith s p = (take (length p) s = p)"

fun includes_str :: "string \<Rightarrow> string \<Rightarrow> bool" where
  "includes_str [] p = (p = [])"
| "includes_str (c # cs) p = (if startsWith (c # cs) p then True else includes_str cs p)"

text \<open>\<^verbatim>\<open>s.split(sep)\<close> for a separator of one character: never an empty list.\<close>

fun split :: "char \<Rightarrow> string \<Rightarrow> string list" where
  "split sep [] = [[]]"
| "split sep (c # cs) =
     (if c = sep then [] # split sep cs
      else (c # hd (split sep cs)) # tl (split sep cs))"

text \<open>\<^verbatim>\<open>s.trim()\<close>: the white space of ASCII is removed at both ends.\<close>

definition isSpace :: "char \<Rightarrow> bool" where
  "isSpace c = (c \<in> set [CHR '' '', CHR 0x09, CHR 0x0A, CHR 0x0B, CHR 0x0C, CHR 0x0D])"

definition trim :: "string \<Rightarrow> string" where
  "trim s = rev (dropWhile isSpace (rev (dropWhile isSpace s)))"

text \<open>
  \<^verbatim>\<open>s.replace(pat, rep)\<close> with a string pattern replaces the first occurrence only.
\<close>

fun replace :: "string \<Rightarrow> string \<Rightarrow> string \<Rightarrow> string" where
  "replace pat rep [] = (if pat = [] then rep else [])"
| "replace pat rep (c # cs) =
     (if startsWith (c # cs) pat then rep @ drop (length pat) (c # cs)
      else c # replace pat rep cs)"

text \<open>
  Every interpreter that expects JSON strips a Markdown code fence from the answer with
  \<^verbatim>\<open>.replace("```json", "").replace("```", "")\<close>.
\<close>

definition stripFences :: "string \<Rightarrow> string" where
  "stripFences r = replace ''```'' [] (replace ''```json'' [] r)"

subsection \<open>Parsed JSON and exceptions\<close>

text \<open>
  What \<^verbatim>\<open>JSON.parse\<close> returns. The interpreters only test numbers for truth and pass
  them on, so integers stand for them. An object is the list of its properties.
\<close>

datatype json =
    JNull
  | JBool bool
  | JNum int
  | JStr string
  | JArr "json list"
  | JObj "(string \<times> json) list"

text \<open>
  A step inside a \<^verbatim>\<open>try\<close> block either throws or completes with a value; a value
  that may be \<^verbatim>\<open>undefined\<close> is an \<open>option\<close>.
\<close>

datatype 'a completion = Throw | Normal 'a

fun andThen :: "'a completion \<Rightarrow> ('a \<Rightarrow> 'b completion) \<Rightarrow> 'b completion" where
  "andThen Throw f = Throw"
| "andThen (Normal x) f = f x"

text \<open>JavaScript's truth of a value, as \<^verbatim>\<open>if (v)\<close> and \<^verbatim>\<open>v && ...\<close> test it.\<close>

fun truthy :: "json \<Rightarrow> bool" where
  "truthy JNull = False"
| "truthy (JBool b) = b"
| "truthy (JNum n) = (n \<noteq> 0)"
| "truthy (JStr s) = (s \<noteq> [])"
| "truthy (JArr xs) = True"
| "truthy (JObj kvs) = True"

fun truthyOpt :: "json option \<Rightarrow> bool" where
  "truthyOpt None = False"
| "truthyOpt (Some j) = truthy j"

text \<open>
  The read \<^verbatim>\<open>v.key\<close> of a parsed value: a \<^verbatim>\<open>TypeError\<close> on \<^verbatim>\<open>null\<close>, the property of
  an object, the length of an array or a string, and \<^verbatim>\<open>undefined\<close> otherwise. The keys
  the interpreters read are fixed names, none of them a member of a prototype.
\<close>

fun getProp :: "json \<Rightarrow> string \<Rightarrow> json option completion" where
  "getProp JNull k = Throw"
| "getProp (JObj kvs) k = Normal (map_of kvs k)"
| "getProp (JArr xs) k = Normal (if k = ''length'' then Some (JNum (int (length xs))) else None)"
| "getProp (JStr s) k = Normal (if k = ''length'' then Some (JNum (int (length s))) else None)"
| "getProp (JBool b) k = Normal None"
| "getProp (JNum n) k = Normal None"

subsection \<open>The catalog, the profile and the environment\<close>

text \<open>
  \<^verbatim>\<open>products\<close> and \<^verbatim>\<open>filterOptions\<close> come from \<^verbatim>\<open>@/data/products\<close>, which is not among
  the sources: the catalog is a parameter, with the fields the component reads.
\<close>

record product =
  p_id :: string
  p_name :: string
  p_description :: string
  p_sizes :: "string list"

record filterOptions =
  colors :: "string list"
  sizes :: "string list"
  materials :: "string list"
  genders :: "string list"
  brands :: "string list"
  subCategories :: "string list"

text \<open>
  \<^verbatim>\<open>interface UserInfo\<close>. A field holds what the classifier returned for it, any JSON
  value, or nothing.
\<close>

record UserInfo =
  name :: "json option"
  email :: "json option"
  address :: "json option"
  phone :: "json option"
  cardName :: "json option"
  cardNumber :: "json option"
  expiryDate :: "json option"
  cvv :: "json option"

text \<open>
  The templates of \<^verbatim>\<open>@/lib/prompts\<close> (not among the sources). A Gateway call is
  identified by its template and the utterance put into it; the other substitutions
  are constants of the catalog.
\<close>

datatype template =
    masterIntentClassifier
  | userInfoUpdate
  | categoryNavigation
  | productAction
  | cartNavigation
  | productDetailNavigation
  | filterCommand
  | interpretCommandPrompt
  | orderCompletion
  | navigationCommand
  | removeFilterCommand

text \<open>
  Everything a dispatch reads and does not own:
  \<^item> \<open>generateContent\<close>: the answer of the Gateway to a call, \<open>None\<close> when the call (or
    reading its text) throws;
  \<^item> \<open>JSON_parse\<close>: \<^verbatim>\<open>JSON.parse\<close>, \<open>None\<close> for a \<^verbatim>\<open>SyntaxError\<close>;
  \<^item> \<open>parseInt\<close>: \<^verbatim>\<open>parseInt\<close>, \<open>None\<close> for \<^verbatim>\<open>NaN\<close>;
  \<^item> \<open>coerced_gt0\<close>: \<^verbatim>\<open>v > 0\<close> for a \<open>v\<close> that is a string, an array or an object
    (JavaScript converts it to a number first);
  \<^item> the catalog, \<^verbatim>\<open>window.location.pathname\<close>, the stored profile, and the buttons of
    the page (\<^verbatim>\<open>textContent\<close> of each, \<open>None\<close> for \<^verbatim>\<open>null\<close>).
\<close>

record env =
  generateContent :: "template \<Rightarrow> string \<Rightarrow> string option"
  JSON_parse :: "string \<Rightarrow> json option"
  parseInt :: "json \<Rightarrow> int option"
  coerced_gt0 :: "json \<Rightarrow> bool"
  products :: "product list"
  filterOptions :: filterOptions
  pathname :: string
  getUserInfo :: UserInfo
  submitButton :: bool
  addToCartButton :: bool
  buttons :: "string option list"

subsection \<open>State and effects\<close>

text \<open>
  A value of a filter after normalization: a string, or a member that the lookup object
  inherits from \<^verbatim>\<open>Object.prototype\<close> (a function, or the prototype itself).
\<close>

datatype jsval = Str string | ProtoMember string

datatype filterEntry = Values "jsval list" | Price json

datatype button = SubmitButton | AddToCartButton | NthButton nat

text \<open>
  The calls on the collaborators, under the names the component calls them by:
  the router, the filter store (\<^verbatim>\<open>useFilters\<close>), the profile store (\<^verbatim>\<open>useUserInfo\<close>), the
  product page (\<^verbatim>\<open>useProduct\<close>) and the page's buttons. \<open>removeFilter t None\<close> is
  \<^verbatim>\<open>removeFilter(t, null)\<close>.
\<close>

datatype effect =
    navigate string
  | historyBack
  | updateFilters "(string \<times> filterEntry) list"
  | clearFilters
  | removeFilter string "jsval list option"
  | updateUserInfo UserInfo
  | userInfoUpdated "string list"
  | setSelectedSize string
  | setQuantity int
  | click button

text \<open>
  The React state of the component and the trace of what it did to the outside, in
  program order. The feedback line (\<^verbatim>\<open>setLastAction\<close>), the console and the time stamps
  of the log are display only and left out. \<open>consecutiveErrors\<close> is the state cell that
  \<^verbatim>\<open>setConsecutiveErrors\<close> updates; \<open>restarts\<close> counts the restarts that \<^verbatim>\<open>handleRecovery\<close>
  has scheduled.
\<close>

record state =
  actionLog :: "(string \<times> bool) list"
  consecutiveErrors :: nat
  isListening :: bool
  restarts :: nat
  gatewayCalls :: "(template \<times> string) list"
  effects :: "effect list"

definition call :: "template \<Rightarrow> string \<Rightarrow> state \<Rightarrow> state" where
  "call t transcript s = s\<lparr>gatewayCalls := gatewayCalls s @ [(t, transcript)]\<rparr>"

definition emit :: "effect \<Rightarrow> state \<Rightarrow> state" where
  "emit e s = s\<lparr>effects := effects s @ [e]\<rparr>"

subsection \<open>Value Normalizer\<close>

text \<open>
  \<^verbatim>\<open>Object.fromEntries(entries)\<close>: an ordinary object with one own property for each key;
  a later entry overwrites an earlier one with the same key.
\<close>

definition fromEntries :: "(string \<times> string) list \<Rightarrow> (string \<rightharpoonup> string)" where
  "fromEntries entries = map_of (rev entries)"

text \<open>
  The reference map of one dimension,
  \<^verbatim>\<open>Object.fromEntries(filterOptions.colors.map((c) => [c.toLowerCase(), c]))\<close>.
\<close>

definition referenceMap :: "string list \<Rightarrow> (string \<rightharpoonup> string)" where
  "referenceMap catalog = fromEntries (map (\<lambda>c. (toLowerCase c, c)) catalog)"

text \<open>
  The read \<^verbatim>\<open>colorMap[key]\<close>. The object is an ordinary one, so a key that is not an own
  property is looked up in \<^verbatim>\<open>Object.prototype\<close>, whose members are these.
\<close>

definition objectPrototype :: "string list" where
  "objectPrototype =
     [''constructor'', ''__defineGetter__'', ''__defineSetter__'', ''hasOwnProperty'',
      ''__lookupGetter__'', ''__lookupSetter__'', ''isPrototypeOf'',
      ''propertyIsEnumerable'', ''toString'', ''valueOf'', ''__proto__'',
      ''toLocaleString'']"

definition readKey :: "(string \<rightharpoonup> string) \<Rightarrow> string \<Rightarrow> jsval option" where
  "readKey obj key =
     (case obj key of
        Some v \<Rightarrow> Some (Str v)
      | None \<Rightarrow> if key \<in> set objectPrototype then Some (ProtoMember key) else None)"

fun truthyVal :: "jsval \<Rightarrow> bool" where
  "truthyVal (Str s) = (s \<noteq> [])"
| "truthyVal (ProtoMember k) = True"

text \<open>
  The arrow \<^verbatim>\<open>(c: string) => colorMap[c.toLowerCase()] || c\<close> of \<^verbatim>\<open>interpretFilterCommand\<close>,
  which is also \<^verbatim>\<open>(val) => mappingFn(val) || val\<close> of \<^verbatim>\<open>handleRemoveFilters\<close>, for the
  catalog list of one dimension.
\<close>

definition normalizeFilterValue :: "string list \<Rightarrow> string \<Rightarrow> jsval" where
  "normalizeFilterValue catalog c =
     (case readKey (referenceMap catalog) (toLowerCase c) of
        Some v \<Rightarrow> if truthyVal v then v else Str c
      | None \<Rightarrow> Str c)"

text \<open>
  The same arrow on any value it may meet: only a string has \<^verbatim>\<open>toLowerCase\<close>, on
  anything else the call is a \<^verbatim>\<open>TypeError\<close>.
\<close>

fun normalizeAny :: "string list \<Rightarrow> jsval \<Rightarrow> jsval completion" where
  "normalizeAny catalog (Str c) = Normal (normalizeFilterValue catalog c)"
| "normalizeAny catalog (ProtoMember k) = Throw"

text \<open>\<^verbatim>\<open>values.map(arrow)\<close> over the elements of a parsed array.\<close>

fun mapStrings :: "(string \<Rightarrow> jsval) \<Rightarrow> json list \<Rightarrow> jsval list completion" where
  "mapStrings f [] = Normal []"
| "mapStrings f (JStr c # xs) = andThen (mapStrings f xs) (\<lambda>ys. Normal (f c # ys))"
| "mapStrings f (x # xs) = Throw"

text \<open>\<^verbatim>\<open>n > 0\<close> for the value \<open>n\<close> of a \<^verbatim>\<open>length\<close> property.\<close>

fun gt0 :: "env \<Rightarrow> json \<Rightarrow> bool" where
  "gt0 e (JNum n) = (0 < n)"
| "gt0 e (JBool b) = b"
| "gt0 e JNull = False"
| "gt0 e j = coerced_gt0 e j"

text \<open>The guard \<^verbatim>\<open>v && v.length > 0\<close> of each dimension.\<close>

definition hasItems :: "env \<Rightarrow> json option \<Rightarrow> bool" where
  "hasItems e v =
     (case v of
        None \<Rightarrow> False
      | Some j \<Rightarrow>
          (if truthy j then
             (case getProp j ''length'' of
                Normal (Some n) \<Rightarrow> gt0 e n
              | _ \<Rightarrow> False)
           else False))"

text \<open>
  One dimension: nothing when the guard fails, the normalized values of an array, and a
  \<^verbatim>\<open>TypeError\<close> when the value has a length and no \<^verbatim>\<open>map\<close>, or an element is not a string.
\<close>

definition dimensionValues :: "env \<Rightarrow> string list \<Rightarrow> json option \<Rightarrow> jsval list option completion" where
  "dimensionValues e catalog v =
     (if hasItems e v then
        (case v of
           Some (JArr xs) \<Rightarrow> andThen (mapStrings (normalizeFilterValue catalog) xs) (\<lambda>ys. Normal (Some ys))
         | _ \<Rightarrow> Throw)
      else Normal None)"

text \<open>The six dimensions in the order the source goes through them.\<close>

definition dimensions :: "filterOptions \<Rightarrow> (string \<times> string list) list" where
  "dimensions fo =
     [(''colors'', colors fo), (''sizes'', sizes fo), (''materials'', materials fo),
      (''genders'', genders fo), (''brands'', brands fo),
      (''subCategories'', subCategories fo)]"

subsection \<open>Filter application\<close>

text \<open>
  The body of the inner \<^verbatim>\<open>try\<close> of \<^verbatim>\<open>interpretFilterCommand\<close> up to the test of
  \<^verbatim>\<open>Object.keys(normalizedFilters)\<close>: the properties of \<^verbatim>\<open>normalizedFilters\<close> in the
  order they are assigned.
\<close>

fun normalizeDimensions ::
  "env \<Rightarrow> json \<Rightarrow> (string \<times> string list) list \<Rightarrow> (string \<times> filterEntry) list completion" where
  "normalizeDimensions e parsed [] = Normal []"
| "normalizeDimensions e parsed ((key, catalog) # ds) =
     andThen (getProp parsed key) (\<lambda>v.
     andThen (dimensionValues e catalog v) (\<lambda>r.
     andThen (normalizeDimensions e parsed ds) (\<lambda>rest.
       Normal ((case r of None \<Rightarrow> [] | Some ys \<Rightarrow> [(key, Values ys)]) @ rest))))"

definition normalizedFilters :: "env \<Rightarrow> json \<Rightarrow> (string \<times> filterEntry) list completion" where
  "normalizedFilters e parsed =
     andThen (normalizeDimensions e parsed (dimensions (filterOptions e))) (\<lambda>nf.
     andThen (getProp parsed ''price'') (\<lambda>price.
       Normal (nf @ (case price of
                       None \<Rightarrow> []
                     | Some p \<Rightarrow> if truthy p then [(''price'', Price p)] else []))))"

definition interpretFilterCommand :: "env \<Rightarrow> string \<Rightarrow> state \<Rightarrow> string \<times> state" where
  "interpretFilterCommand e transcript s =
     (let s1 = call filterCommand transcript s in
      case generateContent e filterCommand transcript of
        None \<Rightarrow> (''unknown'', s1)
      | Some response \<Rightarrow>
          (case JSON_parse e (trim (stripFences response)) of
             None \<Rightarrow> (''unknown'', s1)
           | Some parsedFilters \<Rightarrow>
               (case normalizedFilters e parsedFilters of
                  Throw \<Rightarrow> (''unknown'', s1)
                | Normal nf \<Rightarrow>
                    if nf = [] then (''unknown'', s1)
                    else (''filters_updated'', emit (updateFilters nf) s1))))"

subsection \<open>Filter removal\<close>

text \<open>
  The six calls of \<^verbatim>\<open>processFilterRemoval\<close>, one after the other. A call that throws
  leaves what the calls before it did to the store; \<open>removed\<close> is \<^verbatim>\<open>filtersRemoved\<close>.
\<close>

fun processFilterRemoval ::
  "env \<Rightarrow> json \<Rightarrow> (string \<times> string list) list \<Rightarrow> bool \<Rightarrow> state \<Rightarrow> bool completion \<times> state" where
  "processFilterRemoval e parsed [] removed s = (Normal removed, s)"
| "processFilterRemoval e parsed ((filterType, catalog) # ds) removed s =
     (case andThen (getProp parsed filterType) (dimensionValues e catalog) of
        Throw \<Rightarrow> (Throw, s)
      | Normal None \<Rightarrow> processFilterRemoval e parsed ds removed s
      | Normal (Some normalizedValues) \<Rightarrow>
          processFilterRemoval e parsed ds True
            (emit (removeFilter filterType (Some normalizedValues)) s))"

definition handleRemoveFilters :: "env \<Rightarrow> string \<Rightarrow> state \<Rightarrow> bool \<times> state" where
  "handleRemoveFilters e transcript s =
     (let s1 = call removeFilterCommand transcript s in
      case generateContent e removeFilterCommand transcript of
        None \<Rightarrow> (False, s1)
      | Some responseText \<Rightarrow>
          (case JSON_parse e (trim (stripFences responseText)) of
             None \<Rightarrow> (False, s1)
           | Some parsedRemoval \<Rightarrow>
               (case getProp parsedRemoval ''isRemoveFilter'' of
                  Throw \<Rightarrow> (False, s1)
                | Normal isRemoveFilter \<Rightarrow>
                    if truthyOpt isRemoveFilter then
                      (case processFilterRemoval e parsedRemoval
                              (dimensions (filterOptions e)) False s1 of
                         (Throw, s2) \<Rightarrow> (False, s2)
                       | (Normal removed, s2) \<Rightarrow>
                           if getProp parsedRemoval ''price'' = Normal (Some (JBool True))
                           then (True, emit (removeFilter ''price'' None) s2)
                           else (removed, s2))
                    else (False, s1))))"

subsection \<open>Action log and recovery\<close>

text \<open>
  \<^verbatim>\<open>logAction\<close> puts the entry in front of the 19 most recent ones and resets or
  increments the counter of consecutive errors.
\<close>

definition logAction :: "string \<Rightarrow> bool \<Rightarrow> state \<Rightarrow> state" where
  "logAction action success s =
     s\<lparr>actionLog := (action, success) # take 19 (actionLog s),
       consecutiveErrors := (if success then 0 else consecutiveErrors s + 1)\<rparr>"



subsection \<open>The interpreters with a plain-text answer\<close>

definition classifyPrimaryIntent :: "env \<Rightarrow> string \<Rightarrow> state \<Rightarrow> string \<times> state" where
  "classifyPrimaryIntent e transcript s =
     (let s1 = call masterIntentClassifier transcript s in
      case generateContent e masterIntentClassifier transcript of
        None \<Rightarrow> (''general_command'', s1)
      | Some r \<Rightarrow> (trim r, s1))"

definition handleCategoryNavigation :: "env \<Rightarrow> string \<Rightarrow> state \<Rightarrow> bool \<times> state" where
  "handleCategoryNavigation e transcript s =
     (let s1 = call categoryNavigation transcript s in
      case generateContent e categoryNavigation transcript of
        None \<Rightarrow> (False, s1)
      | Some r \<Rightarrow>
          (let response = toLowerCase (trim r) in
           if response = ''gym'' then (True, emit (navigate ''/products/gym'') s1)
           else if response = ''yoga'' then (True, emit (navigate ''/products/yoga'') s1)
           else if response = ''running'' then (True, emit (navigate ''/products/jogging'') s1)
           else (False, s1)))"

definition handleCartNavigation :: "env \<Rightarrow> string \<Rightarrow> state \<Rightarrow> bool \<times> state" where
  "handleCartNavigation e transcript s =
     (let s1 = call cartNavigation transcript s in
      case generateContent e cartNavigation transcript of
        None \<Rightarrow> (False, s1)
      | Some r \<Rightarrow>
          if toLowerCase (trim r) = ''yes'' then (True, emit (navigate ''/cart'') s1)
          else (False, s1))"

text \<open>
  \<^verbatim>\<open>interpretCommand\<close> scans the utterance for the phrases first and calls the Gateway
  only when none occurs.
\<close>

definition clearFilterPhrases :: "string list" where
  "clearFilterPhrases =
     [''clear filter'', ''reset filter'', ''remove filter'', ''clear all filter'',
      ''reset all filter'', ''remove all filter'', ''clear the filter'', ''start over'']"

definition interpretCommand :: "env \<Rightarrow> string \<Rightarrow> state \<Rightarrow> string \<times> state" where
  "interpretCommand e transcript s =
     (if list_ex (includes_str transcript) clearFilterPhrases then (''clearFilters'', s)
      else
        (let s1 = call interpretCommandPrompt transcript s in
         case generateContent e interpretCommandPrompt transcript of
           None \<Rightarrow> (''unknown'', s1)
         | Some r \<Rightarrow> (trim r, s1)))"

subsection \<open>Order completion\<close>

text \<open>
  \<^verbatim>\<open>userInfo.cardNumber && userInfo.expiryDate && userInfo.cvv && userInfo.name &&
  userInfo.email && userInfo.address\<close>, as the condition of an \<^verbatim>\<open>if\<close>.
\<close>

definition hasRequiredInfo :: "UserInfo \<Rightarrow> bool" where
  "hasRequiredInfo userInfo =
     (truthyOpt (cardNumber userInfo) \<and> truthyOpt (expiryDate userInfo) \<and>
      truthyOpt (cvv userInfo) \<and> truthyOpt (name userInfo) \<and>
      truthyOpt (email userInfo) \<and> truthyOpt (address userInfo))"

definition handleOrderCompletion :: "env \<Rightarrow> string \<Rightarrow> state \<Rightarrow> bool \<times> state" where
  "handleOrderCompletion e transcript s =
     (let s1 = call orderCompletion transcript s in
      case generateContent e orderCompletion transcript of
        None \<Rightarrow> (False, s1)
      | Some r \<Rightarrow>
          if toLowerCase (trim r) = ''yes'' then
            (let isOnPaymentPage = (pathname e = ''/payment'') in
             if isOnPaymentPage \<and> hasRequiredInfo (getUserInfo e) then
               (if submitButton e then (True, emit (click SubmitButton) s1)
                else (True, emit (navigate ''/confirmation'') s1))
             else (True, emit (navigate ''/payment'') s1))
          else (False, s1))"

subsection \<open>Navigation and user information\<close>

definition handleNavigationCommand :: "env \<Rightarrow> string \<Rightarrow> state \<Rightarrow> bool \<times> state" where
  "handleNavigationCommand e transcript s =
     (let s1 = call navigationCommand transcript s in
      case generateContent e navigationCommand transcript of
        None \<Rightarrow> (False, s1)
      | Some responseText \<Rightarrow>
          (case JSON_parse e (trim (stripFences responseText)) of
             None \<Rightarrow> (False, s1)
           | Some response \<Rightarrow>
               (case getProp response ''action'' of
                  Throw \<Rightarrow> (False, s1)
                | Normal action \<Rightarrow>
                    if action = Some (JStr ''back'') then (True, emit historyBack s1)
                    else if action = Some (JStr ''home'') then (True, emit (navigate ''/'') s1)
                    else (False, s1))))"

text \<open>
  A read \<^verbatim>\<open>response.key\<close> after an earlier read of \<open>response\<close> has succeeded: the value
  is not \<^verbatim>\<open>null\<close>, so the read does not throw.
\<close>

definition readField :: "json \<Rightarrow> string \<Rightarrow> json option" where
  "readField response key = (case getProp response key of Normal v \<Rightarrow> v | Throw \<Rightarrow> None)"

text \<open>
  \<^verbatim>\<open>if (response.f) { updatedInfo.f = response.f; updatedFields.push(label); }\<close> for the
  eight fields: the new value of a field, and the labels pushed.
\<close>

definition updatedField :: "json \<Rightarrow> string \<Rightarrow> json option \<Rightarrow> json option" where
  "updatedField response key current =
     (if truthyOpt (readField response key) then readField response key else current)"

definition fieldLabels :: "(string \<times> string) list" where
  "fieldLabels =
     [(''name'', ''name''), (''email'', ''email''), (''address'', ''address''),
      (''phone'', ''phone''), (''cardName'', ''card name''),
      (''cardNumber'', ''card number''), (''expiryDate'', ''card expiry date''),
      (''cvv'', ''CVV'')]"

definition updatedFields :: "json \<Rightarrow> string list" where
  "updatedFields response =
     map snd (filter (\<lambda>(key, label). truthyOpt (readField response key)) fieldLabels)"

definition updatedInfo :: "json \<Rightarrow> UserInfo \<Rightarrow> UserInfo" where
  "updatedInfo response currentInfo =
     \<lparr>name = updatedField response ''name'' (name currentInfo),
      email = updatedField response ''email'' (email currentInfo),
      address = updatedField response ''address'' (address currentInfo),
      phone = updatedField response ''phone'' (phone currentInfo),
      cardName = updatedField response ''cardName'' (cardName currentInfo),
      cardNumber = updatedField response ''cardNumber'' (cardNumber currentInfo),
      expiryDate = updatedField response ''expiryDate'' (expiryDate currentInfo),
      cvv = updatedField response ''cvv'' (cvv currentInfo)\<rparr>"

text \<open>Here \<^verbatim>\<open>JSON.parse\<close> gets the answer without \<^verbatim>\<open>trim()\<close>.\<close>

definition handleUserInfoUpdate :: "env \<Rightarrow> string \<Rightarrow> state \<Rightarrow> bool \<times> state" where
  "handleUserInfoUpdate e transcript s =
     (let s1 = call userInfoUpdate transcript s in
      case generateContent e userInfoUpdate transcript of
        None \<Rightarrow> (False, s1)
      | Some responseText \<Rightarrow>
          (case JSON_parse e (stripFences responseText) of
             None \<Rightarrow> (False, s1)
           | Some response \<Rightarrow>
               (case getProp response ''isUserInfoUpdate'' of
                  Throw \<Rightarrow> (False, s1)
                | Normal isUserInfoUpdate \<Rightarrow>
                    if truthyOpt isUserInfoUpdate then
                      (if updatedFields response = [] then (False, s1)
                       else (True,
                         emit (userInfoUpdated (updatedFields response))
                           (emit (updateUserInfo (updatedInfo response (getUserInfo e))) s1)))
                    else (False, s1))))"

subsection \<open>Product actions\<close>

text \<open>
  The loop over \<^verbatim>\<open>document.querySelectorAll("button")\<close>: the first button whose text, in
  lower case, contains \<^verbatim>\<open>add to cart\<close>.
\<close>

fun findAddToCart :: "string option list \<Rightarrow> nat \<Rightarrow> nat option" where
  "findAddToCart [] i = None"
| "findAddToCart (None # bs) i = findAddToCart bs (Suc i)"
| "findAddToCart (Some textContent # bs) i =
     (if includes_str (toLowerCase textContent) ''add to cart'' then Some i
      else findAddToCart bs (Suc i))"

text \<open>
  \<^verbatim>\<open>product.sizes.find((size) => size.toLowerCase() === parsedAction.size.toLowerCase())\<close>
  for a truthy \<^verbatim>\<open>parsedAction.size\<close>: when it is not a string the arrow throws on the
  first size it is called with. The match counts when it is truthy, that is not empty.
\<close>

definition findSize :: "string list \<Rightarrow> json \<Rightarrow> string option completion" where
  "findSize productSizes wanted =
     (case wanted of
        JStr z \<Rightarrow> Normal (find (\<lambda>size. toLowerCase size = toLowerCase z) productSizes)
      | _ \<Rightarrow> if productSizes = [] then Normal None else Throw)"

text \<open>
  The inner \<^verbatim>\<open>try\<close> of \<^verbatim>\<open>handleProductActions\<close>, after \<^verbatim>\<open>JSON.parse\<close>. The source tests
  the tag in a row of \<^verbatim>\<open>if\<close>s that exclude each other and ends with \<^verbatim>\<open>return true\<close>: a
  branch that does not return falls through to it.
\<close>

definition productActionBody :: "env \<Rightarrow> product \<Rightarrow> json \<Rightarrow> state \<Rightarrow> bool completion \<times> state" where
  "productActionBody e product parsedAction s =
     (case getProp parsedAction ''action'' of
        Throw \<Rightarrow> (Throw, s)
      | Normal action \<Rightarrow>
          if action = Some (JStr ''none'') then (Normal False, s)
          else if action = Some (JStr ''size'') then
            (case readField parsedAction ''size'' of
               None \<Rightarrow> (Normal True, s)
             | Some wanted \<Rightarrow>
                 if truthy wanted then
                   (case findSize (p_sizes product) wanted of
                      Throw \<Rightarrow> (Throw, s)
                    | Normal None \<Rightarrow> (Normal True, s)
                    | Normal (Some matchedSize) \<Rightarrow>
                        if matchedSize = [] then (Normal True, s)
                        else (Normal True, emit (setSelectedSize matchedSize) s))
                 else (Normal True, s))
          else if action = Some (JStr ''quantity'') then
            (case readField parsedAction ''quantity'' of
               None \<Rightarrow> (Normal True, s)
             | Some quantity \<Rightarrow>
                 if truthy quantity then
                   (case parseInt e quantity of
                      None \<Rightarrow> (Normal True, s)
                    | Some newQuantity \<Rightarrow>
                        if 0 < newQuantity then (Normal True, emit (setQuantity newQuantity) s)
                        else (Normal True, s))
                 else (Normal True, s))
          else if action = Some (JStr ''addToCart'') then
            (if addToCartButton e then (Normal True, emit (click AddToCartButton) s)
             else
               (case findAddToCart (buttons e) 0 of
                  Some i \<Rightarrow> (Normal True, emit (click (NthButton i)) s)
                | None \<Rightarrow> (Normal True, s)))
          else (Normal True, s))"

definition handleProductActions :: "env \<Rightarrow> string \<Rightarrow> state \<Rightarrow> bool \<times> state" where
  "handleProductActions e transcript s =
     (let currentPath = pathname e in
      if startsWith currentPath ''/product/'' then
        (let productId = last (split CHR ''/'' currentPath) in
         case find (\<lambda>p. p_id p = productId) (products e) of
           None \<Rightarrow> (False, s)
         | Some product \<Rightarrow>
             (let s1 = call productAction transcript s in
              case generateContent e productAction transcript of
                None \<Rightarrow> (False, s1)
              | Some response \<Rightarrow>
                  (case JSON_parse e (trim (stripFences response)) of
                     None \<Rightarrow> (False, s1)
                   | Some parsedAction \<Rightarrow>
                       (case productActionBody e product parsedAction s1 of
                          (Throw, s2) \<Rightarrow> (False, s2)
                        | (Normal handled, s2) \<Rightarrow> (handled, s2)))))
      else (False, s))"

subsection \<open>Product-detail navigation\<close>

text \<open>
  The three attempts to find \<^verbatim>\<open>matchedProduct\<close> for \<^verbatim>\<open>productName\<close>, the answer of the
  Gateway in lower case. \<open>find\<close> is \<^verbatim>\<open>products.find\<close>: the first product that satisfies
  the test.
\<close>

definition exactMatch :: "product list \<Rightarrow> string \<Rightarrow> product option" where
  "exactMatch ps productName = find (\<lambda>p. toLowerCase (p_name p) = productName) ps"

definition partialMatch :: "product list \<Rightarrow> string \<Rightarrow> product option" where
  "partialMatch ps productName =
     find (\<lambda>p. if includes_str (toLowerCase (p_name p)) productName then True
               else includes_str productName (toLowerCase (p_name p))) ps"

text \<open>
  \<^verbatim>\<open>for (const word of words) { matchedProduct = products.find(...); if (matchedProduct) break; }\<close>
\<close>

fun keywordMatch :: "product list \<Rightarrow> string list \<Rightarrow> product option" where
  "keywordMatch ps [] = None"
| "keywordMatch ps (word # words) =
     (case find (\<lambda>p. includes_str (toLowerCase (p_name p)) word) ps of
        Some p \<Rightarrow> Some p
      | None \<Rightarrow> keywordMatch ps words)"

definition longWords :: "string \<Rightarrow> string list" where
  "longWords productName = filter (\<lambda>w. 3 < length w) (split CHR '' '' productName)"

definition matchProduct :: "product list \<Rightarrow> string \<Rightarrow> product option" where
  "matchProduct ps productName =
     (case exactMatch ps productName of
        Some p \<Rightarrow> Some p
      | None \<Rightarrow>
          (case partialMatch ps productName of
             Some p \<Rightarrow> Some p
           | None \<Rightarrow> keywordMatch ps (longWords productName)))"

definition handleProductDetailNavigation :: "env \<Rightarrow> string \<Rightarrow> state \<Rightarrow> bool \<times> state" where
  "handleProductDetailNavigation e transcript s =
     (let s1 = call productDetailNavigation transcript s in
      case generateContent e productDetailNavigation transcript of
        None \<Rightarrow> (False, s1)
      | Some r \<Rightarrow>
          (let response = trim r in
           if toLowerCase response = ''none'' then (False, s1)
           else
             (case matchProduct (products e) (toLowerCase response) of
                Some matchedProduct \<Rightarrow>
                  (True, emit (navigate (''/product/'' @ p_id matchedProduct)) s1)
              | None \<Rightarrow> (False, s1))))"

subsection \<open>Command Dispatcher\<close>

text \<open>
  The inner \<^verbatim>\<open>switch (action)\<close> of the \<^verbatim>\<open>general_command\<close> case: the new value of
  \<^verbatim>\<open>handled\<close> and the state.
\<close>

definition generalAction :: "env \<Rightarrow> string \<Rightarrow> state \<Rightarrow> bool \<times> state" where
  "generalAction e action s =
     (if action = ''showGymClothes'' then (True, emit (navigate ''/products/gym'') s)
      else if action = ''showYogaEquipment'' then (True, emit (navigate ''/products/yoga'') s)
      else if action = ''goToCart'' then (True, emit (navigate ''/cart'') s)
      else if action = ''checkout'' then
        (if pathname e = ''/payment'' then
           (if hasRequiredInfo (getUserInfo e) then
              (if submitButton e then (True, emit (click SubmitButton) s)
               else (True, emit (navigate ''/confirmation'') s))
            else (True, s))
         else (True, emit (navigate ''/payment'') s))
      else if action = ''showRunningGear'' then (True, emit (navigate ''/products/jogging'') s)
      else if action = ''clearFilters'' then (True, emit clearFilters s)
      else (False, s))"

text \<open>The \<^verbatim>\<open>switch (primaryIntent)\<close>: a category that matches no case leaves \<^verbatim>\<open>handled\<close> false.\<close>

definition secondTier :: "env \<Rightarrow> string \<Rightarrow> string \<Rightarrow> state \<Rightarrow> bool \<times> state" where
  "secondTier e primaryIntent command s =
     (if primaryIntent = ''navigation'' then handleNavigationCommand e command s
      else if primaryIntent = ''order_completion'' then handleOrderCompletion e command s
      else if primaryIntent = ''user_info'' then handleUserInfoUpdate e command s
      else if primaryIntent = ''cart'' then handleCartNavigation e command s
      else if primaryIntent = ''product_action'' then handleProductActions e command s
      else if primaryIntent = ''product_navigation'' then handleProductDetailNavigation e command s
      else if primaryIntent = ''remove_filter'' then handleRemoveFilters e command s
      else if primaryIntent = ''category_navigation'' then
        (case handleCategoryNavigation e command s of
           (categoryNavigated, s1) \<Rightarrow>
             if categoryNavigated then (True, snd (interpretFilterCommand e command s1))
             else (False, s1))
      else if primaryIntent = ''apply_filter'' then
        (case interpretFilterCommand e command s of
           (filterResult, s1) \<Rightarrow> (filterResult = ''filters_updated'', s1))
      else if primaryIntent = ''clear_filters'' then (True, emit clearFilters s)
      else if primaryIntent = ''general_command'' then
        (case interpretCommand e command s of (action, s1) \<Rightarrow> generalAction e action s1)
      else (False, s))"

text \<open>
  \<^verbatim>\<open>handleVoiceCommand\<close>. Every interpreter catches what it throws, so the \<^verbatim>\<open>catch\<close> of
  this function, with its call of \<^verbatim>\<open>handleRecovery\<close>, is reached only when a collaborator
  throws, which the collaborators of this model do not; the traces below cover that call. \<^verbatim>\<open>handleClearFilters\<close> is defined
  in the component and never called, and is left out.
\<close>

definition handleVoiceCommand :: "env \<Rightarrow> string \<Rightarrow> state \<Rightarrow> state" where
  \<open>handleVoiceCommand e command s =
     (let s1 = logAction (''Processing command: "'' @ command @ ''"'') True s in
      case classifyPrimaryIntent e command s1 of
        (primaryIntent, s2) \<Rightarrow>
          (let s3 = logAction (''Identified primary intent: '' @ primaryIntent) True s2 in
           case secondTier e primaryIntent command s3 of
             (handled, s4) \<Rightarrow>
               if handled then
                 logAction (''Successfully handled "'' @ command @ ''" ('' @ primaryIntent @ '')'')
                   True s4
               else logAction (''No handler processed: "'' @ command @ ''"'') False s4))\<close>

subsection \<open>Traces of the recovery supervisor\<close>






subsection \<open>The keyword step in the words of the specification\<close>

text \<open>
  The specification describes the third attempt of product-detail navigation as a
  "keyword overlap using catalog name words longer than 3 characters". These
  definitions follow those words, for comparison with \<open>keywordMatch\<close>: the words of a
  catalog name longer than 3 characters, and the two ways such a word can overlap with
  the reference: it occurs in the reference, or a word of the reference occurs in it.
\<close>

definition specNameWords :: "product \<Rightarrow> string list" where
  "specNameWords p = filter (\<lambda>w. 3 < length w) (split CHR '' '' (toLowerCase (p_name p)))"

definition specNameWordInReference :: "product list \<Rightarrow> string \<Rightarrow> bool" where
  "specNameWordInReference ps reference =
     list_ex (\<lambda>p. list_ex (\<lambda>cw. includes_str reference cw) (specNameWords p)) ps"

definition specReferenceWordInNameWord :: "product list \<Rightarrow> string \<Rightarrow> bool" where
  "specReferenceWordInNameWord ps reference =
     list_ex (\<lambda>p. list_ex (\<lambda>cw. list_ex (\<lambda>rw. includes_str cw rw) (split CHR '' '' reference))
                     (specNameWords p)) ps"

subsection \<open>Example inputs\<close>

text \<open>A fresh component, a small catalog and a complete profile.\<close>

definition initialState :: state where
  "initialState =
     \<lparr>actionLog = [], consecutiveErrors = 0, isListening = False, restarts = 0,
      gatewayCalls = [], effects = []\<rparr>"

definition demoOptions :: filterOptions where
  "demoOptions =
     \<lparr>colors = [''Red'', ''Blue''], sizes = [''S'', ''M'', ''L''], materials = [''Cotton''],
      genders = [''Men'', ''Women''], brands = [''Nike''], subCategories = [''Shoes'']\<rparr>"

definition demoProducts :: "product list" where
  "demoProducts =
     [\<lparr>p_id = ''1'', p_name = ''Yoga Mat'', p_description = ''A mat'', p_sizes = []\<rparr>,
      \<lparr>p_id = ''2'', p_name = ''Running Shoes'', p_description = ''Shoes'',
       p_sizes = [''S'', ''M'']\<rparr>]"

definition completeInfo :: UserInfo where
  "completeInfo =
     \<lparr>name = Some (JStr ''Ann''), email = Some (JStr ''ann@example.org''),
      address = Some (JStr ''1 Main St''), phone = None, cardName = None,
      cardNumber = Some (JStr ''4111''), expiryDate = Some (JStr ''12/30''),
      cvv = Some (JStr ''123'')\<rparr>"

text \<open>An answer of the Gateway that is no JSON once its fences are stripped.\<close>

definition brokenAnswer :: string where
  "brokenAnswer = ''```json{oops```''"


text \<open>
  An environment whose Gateway gives the answer \<open>primary\<close> to the master classifier and
  \<open>second\<close> to every other template, and whose parser knows one text, \<open>known\<close>.
\<close>

definition demoEnv :: "string option \<Rightarrow> string option \<Rightarrow> string \<Rightarrow> json \<Rightarrow> string \<Rightarrow> env" where
  "demoEnv primary second known parsed path =
     \<lparr>generateContent = (\<lambda>t transcript. if t = masterIntentClassifier then primary else second),
      JSON_parse = (\<lambda>text. if text = known then Some parsed else None),
      parseInt = (\<lambda>j. case j of JNum n \<Rightarrow> Some n | _ \<Rightarrow> None),
      coerced_gt0 = (\<lambda>j. False),
      products = demoProducts,
      filterOptions = demoOptions,
      pathname = path,
      getUserInfo = completeInfo,
      submitButton = True,
      addToCartButton = True,
      buttons = []\<rparr>"

text \<open>
  Three answers of the Gateway with what \<^verbatim>\<open>JSON.parse\<close> makes of them: a removal whose
  sizes are numbers, a colour named like a member of \<^verbatim>\<open>Object.prototype\<close>, and a product
  action with a tag the interpreter does not know.
\<close>

definition removalAnswer :: string where
  \<open>removalAnswer = ''{"isRemoveFilter": true, "colors": ["red"], "sizes": [10]}''\<close>

definition removalParsed :: json where
  "removalParsed =
     JObj [(''isRemoveFilter'', JBool True), (''colors'', JArr [JStr ''red'']),
           (''sizes'', JArr [JNum 10])]"

definition inheritedAnswer :: string where
  \<open>inheritedAnswer = ''{"colors": ["constructor"]}''\<close>

definition inheritedParsed :: json where
  "inheritedParsed = JObj [(''colors'', JArr [JStr ''constructor''])]"

definition sparkleAnswer :: string where
  \<open>sparkleAnswer = ''{"action": "sparkle"}''\<close>

definition sparkleParsed :: json where
  "sparkleParsed = JObj [(''action'', JStr ''sparkle'')]"

section \<open>Properties\<close>

subsection \<open>Bookkeeping\<close>

lemma effects_call [simp]: "effects (call t transcript s) = effects s"
  by (simp add: call_def)

lemma gatewayCalls_emit [simp]: "gatewayCalls (emit x s) = gatewayCalls s"
  by (simp add: emit_def)

subsection \<open>Filter application fails closed\<close>

text \<open>
  C1. When the Gateway call of \<^verbatim>\<open>interpretFilterCommand\<close> fails, or its answer, with the
  fences stripped and trimmed, is not JSON, the function returns \<^verbatim>\<open>"unknown"\<close> and the
  trace of effects is the one it started with: \<^verbatim>\<open>updateFilters\<close> is not called.
\<close>

theorem interpretFilterCommand_fails_closed:
  assumes "generateContent e filterCommand transcript = None \<or>
           (\<exists>response. generateContent e filterCommand transcript = Some response \<and>
              JSON_parse e (trim (stripFences response)) = None)"
  shows "fst (interpretFilterCommand e transcript s) = ''unknown'' \<and>
         effects (snd (interpretFilterCommand e transcript s)) = effects s"
  using assms by (auto simp: interpretFilterCommand_def Let_def)

theorem interpretFilterCommand_fails_closed_witness:
  "JSON_parse (demoEnv None (Some brokenAnswer) ''{}'' (JObj []) ''/'')
       (trim (stripFences brokenAnswer)) = None \<and>
   fst (interpretFilterCommand (demoEnv None (Some brokenAnswer) ''{}'' (JObj []) ''/'')
          ''blue shoes'' initialState) = ''unknown'' \<and>
   effects (snd (interpretFilterCommand (demoEnv None (Some brokenAnswer) ''{}'' (JObj []) ''/'')
          ''blue shoes'' initialState)) = []"
proof -
  let ?e = "demoEnv None (Some brokenAnswer) ''{}'' (JObj []) ''/''"
  have g: "generateContent ?e filterCommand ''blue shoes'' = Some brokenAnswer"
    by (simp add: demoEnv_def)
  have p: "JSON_parse ?e (trim (stripFences brokenAnswer)) = None"
    by (simp add: demoEnv_def brokenAnswer_def stripFences_def startsWith_def trim_def
        isSpace_def)
  from g p have "generateContent ?e filterCommand ''blue shoes'' = None \<or>
           (\<exists>response. generateContent ?e filterCommand ''blue shoes'' = Some response \<and>
              JSON_parse ?e (trim (stripFences response)) = None)"
    by blast
  from interpretFilterCommand_fails_closed [OF this, of initialState] p
  show ?thesis by (simp add: initialState_def)
qed

subsection \<open>The recovery counter\<close>







subsection \<open>Order completion\<close>

text \<open>
  C5. When the Gateway answers \<^verbatim>\<open>yes\<close> to the order-completion prompt, the interpreter
  returns true after exactly one action: on the payment page with card number, expiry
  date, CVV, name, email and address all set, it clicks the submit button, or navigates
  to \<^verbatim>\<open>/confirmation\<close> when the page has no such button; off the payment page, or with one
  of the six fields missing, it navigates to \<^verbatim>\<open>/payment\<close>.
\<close>

theorem handleOrderCompletion_confirmed:
  assumes "generateContent e orderCompletion transcript = Some r"
    and "toLowerCase (trim r) = ''yes''"
  shows "handleOrderCompletion e transcript s =
     (True,
      emit
        (if pathname e = ''/payment'' \<and>
            truthyOpt (cardNumber (getUserInfo e)) \<and> truthyOpt (expiryDate (getUserInfo e)) \<and>
            truthyOpt (cvv (getUserInfo e)) \<and> truthyOpt (name (getUserInfo e)) \<and>
            truthyOpt (email (getUserInfo e)) \<and> truthyOpt (address (getUserInfo e))
         then (if submitButton e then click SubmitButton else navigate ''/confirmation'')
         else navigate ''/payment'')
        (call orderCompletion transcript s))"
  using assms by (simp add: handleOrderCompletion_def hasRequiredInfo_def Let_def)

theorem handleOrderCompletion_confirmed_witness:
  "toLowerCase (trim '' Yes '') = ''yes'' \<and>
   handleOrderCompletion (demoEnv None (Some '' Yes '') ''{}'' (JObj []) ''/payment'')
     ''place my order'' initialState =
   (True, emit (click SubmitButton) (call orderCompletion ''place my order'' initialState))"
proof -
  let ?e = "demoEnv None (Some '' Yes '') ''{}'' (JObj []) ''/payment''"
  have g: "generateContent ?e orderCompletion ''place my order'' = Some '' Yes ''"
    by (simp add: demoEnv_def)
  have y: "toLowerCase (trim '' Yes '') = ''yes''"
    by (simp add: toLowerCase_def lowerChar_def trim_def isSpace_def)
  from handleOrderCompletion_confirmed [OF g y, of initialState] y
  show ?thesis by (simp add: demoEnv_def completeInfo_def)
qed

subsection \<open>The fast path of the fallback interpreter\<close>

lemma startsWith_append: "startsWith (p @ b) p"
  by (simp add: startsWith_def)

lemma includes_str_startsWith: "startsWith s p \<Longrightarrow> includes_str s p"
  by (cases s) (auto simp: startsWith_def)

lemma includes_str_append: "includes_str (a @ p @ b) p"
  by (induction a) (auto intro: includes_str_startsWith startsWith_append)

text \<open>
  C6. For an utterance that contains one of the eight filter-clearing phrases,
  \<^verbatim>\<open>interpretCommand\<close> returns \<^verbatim>\<open>"clearFilters"\<close> and the state is the one it started with:
  no Gateway call is issued, whatever the Gateway would have answered.
\<close>

theorem interpretCommand_fast_path:
  assumes "phrase \<in> set [''clear filter'', ''reset filter'', ''remove filter'',
             ''clear all filter'', ''reset all filter'', ''remove all filter'',
             ''clear the filter'', ''start over'']"
    and "transcript = before @ phrase @ rest"
  shows "interpretCommand e transcript s = (''clearFilters'', s)"
proof -
  have "includes_str transcript phrase"
    using assms(2) by (simp add: includes_str_append)
  moreover have "phrase \<in> set clearFilterPhrases"
    using assms(1) by (simp add: clearFilterPhrases_def)
  ultimately have "list_ex (includes_str transcript) clearFilterPhrases"
    unfolding list_ex_iff by blast
  then show ?thesis by (simp add: interpretCommand_def)
qed

theorem interpretCommand_fast_path_witness:
  "interpretCommand (demoEnv None None ''{}'' (JObj []) ''/'') ''please clear all filters now''
     initialState = (''clearFilters'', initialState)"
  using interpretCommand_fast_path [of "''clear all filter''" "''please clear all filters now''"
      "''please ''" "''s now''" "demoEnv None None ''{}'' (JObj []) ''/''" initialState]
  by simp

subsection \<open>The category \<^verbatim>\<open>clear_filters\<close>\<close>

text \<open>
  C10. When the primary classifier answers \<^verbatim>\<open>clear_filters\<close>, \<^verbatim>\<open>handleVoiceCommand\<close> calls
  \<^verbatim>\<open>clearFilters\<close> and logs the command as handled, for every utterance: the only Gateway
  call is the primary classification, the only effect is \<^verbatim>\<open>clearFilters\<close>, and the
  utterance occurs in the result only as the text of the call and of the log.
\<close>

theorem clear_filters_category:
  assumes "generateContent e masterIntentClassifier command = Some r"
    and "trim r = ''clear_filters''"
  shows "effects (handleVoiceCommand e command s) = effects s @ [clearFilters] \<and>
         gatewayCalls (handleVoiceCommand e command s) =
           gatewayCalls s @ [(masterIntentClassifier, command)] \<and>
         take 1 (actionLog (handleVoiceCommand e command s)) =
           [(''Successfully handled '' @ [CHR 0x22] @ command @ [CHR 0x22] @ '' (clear_filters)'',
             True)] \<and>
         consecutiveErrors (handleVoiceCommand e command s) = 0"
  using assms
  by (simp add: handleVoiceCommand_def classifyPrimaryIntent_def secondTier_def Let_def
      logAction_def call_def emit_def)

theorem clear_filters_category_witness:
  "trim '' clear_filters '' = ''clear_filters'' \<and>
   effects (handleVoiceCommand (demoEnv (Some '' clear_filters '') None ''{}'' (JObj []) ''/'')
      ''what a nice day'' initialState) = [clearFilters] \<and>
   gatewayCalls (handleVoiceCommand (demoEnv (Some '' clear_filters '') None ''{}'' (JObj []) ''/'')
      ''what a nice day'' initialState) = [(masterIntentClassifier, ''what a nice day'')]"
proof -
  let ?e = "demoEnv (Some '' clear_filters '') None ''{}'' (JObj []) ''/''"
  have g: "generateContent ?e masterIntentClassifier ''what a nice day'' = Some '' clear_filters ''"
    by (simp add: demoEnv_def)
  have t: "trim '' clear_filters '' = ''clear_filters''"
    by (simp add: trim_def isSpace_def)
  from clear_filters_category [OF g t, of initialState] t
  show ?thesis by (simp add: initialState_def)
qed

subsection \<open>Evaluation of concrete inputs\<close>

lemmas eval_defs =
  demoEnv_def demoOptions_def demoProducts_def initialState_def completeInfo_def
  handleVoiceCommand_def classifyPrimaryIntent_def secondTier_def
  handleRemoveFilters_def interpretFilterCommand_def handleProductActions_def
  productActionBody_def normalizedFilters_def dimensions_def dimensionValues_def hasItems_def
  normalizeFilterValue_def readKey_def referenceMap_def fromEntries_def objectPrototype_def
  toLowerCase_def lowerChar_def trim_def isSpace_def stripFences_def startsWith_def
  logAction_def call_def emit_def readField_def Let_def

subsection \<open>Product-detail navigation\<close>

lemma split_nonempty: "split sep s \<noteq> []"
  by (induction s) auto

lemma split_no_sep: "w \<in> set (split sep s) \<Longrightarrow> sep \<notin> set w"
proof (induction s arbitrary: w)
  case Nil
  then show ?case by simp
next
  case (Cons c cs)
  show ?case
  proof (cases "c = sep")
    case True
    with Cons show ?thesis by auto
  next
    case False
    from Cons.prems False
    have "w = c # hd (split sep cs) \<or> w \<in> set (tl (split sep cs))" by simp
    then show ?thesis
    proof
      assume w: "w = c # hd (split sep cs)"
      have "hd (split sep cs) \<in> set (split sep cs)"
        using split_nonempty by simp
      with Cons.IH have "sep \<notin> set (hd (split sep cs))" by blast
      with w False show ?thesis by auto
    next
      assume "w \<in> set (tl (split sep cs))"
      then have "w \<in> set (split sep cs)"
        using split_nonempty [of sep cs] by (cases "split sep cs") auto
      with Cons.IH show ?thesis by blast
    qed
  qed
qed

lemma startsWith_Nil [simp]: "startsWith s []"
  by (simp add: startsWith_def)

lemma startsWith_Cons:
  "startsWith (c # cs) (x # w) \<longleftrightarrow> c = x \<and> startsWith cs w"
  by (auto simp: startsWith_def)

lemma startsWith_hd_split:
  "sep \<notin> set w \<Longrightarrow> startsWith s w \<Longrightarrow> startsWith (hd (split sep s)) w"
proof (induction s arbitrary: w)
  case Nil
  then show ?case by (simp add: startsWith_def)
next
  case (Cons c cs)
  show ?case
  proof (cases w)
    case Nil
    then show ?thesis by simp
  next
    case (Cons x w')
    with Cons.prems have cx: "c = x" and sw: "startsWith cs w'" and ns: "sep \<notin> set w'" and "x \<noteq> sep"
      by (auto simp: startsWith_Cons)
    with Cons.IH [OF ns sw] Cons show ?thesis
      by (simp add: startsWith_Cons)
  qed
qed

lemma includes_str_Nil [simp]: "includes_str s []"
  by (cases s) simp_all

lemma includes_str_Cons_word:
  "includes_str cw w \<Longrightarrow> includes_str (c # cw) w"
  by simp

lemma includes_str_split:
  "sep \<notin> set w \<Longrightarrow> includes_str s w \<Longrightarrow> \<exists>cw\<in>set (split sep s). includes_str cw w"
proof (induction s)
  case Nil
  then show ?case by simp
next
  case (Cons c cs)
  show ?case
  proof (cases "startsWith (c # cs) w")
    case True
    with Cons.prems(1) have "startsWith (hd (split sep (c # cs))) w"
      by (rule startsWith_hd_split)
    then have "includes_str (hd (split sep (c # cs))) w"
      by (rule includes_str_startsWith)
    moreover have "hd (split sep (c # cs)) \<in> set (split sep (c # cs))"
      using split_nonempty [of sep "c # cs"] by (intro hd_in_set)
    ultimately show ?thesis by blast
  next
    case False
    with Cons.prems have "includes_str cs w" by simp
    with Cons.IH Cons.prems(1) obtain cw where cw: "cw \<in> set (split sep cs)" "includes_str cw w"
      by blast
    show ?thesis
    proof (cases "c = sep")
      case True
      with cw show ?thesis by auto
    next
      case False
      from cw(1) split_nonempty [of sep cs]
      have "cw = hd (split sep cs) \<or> cw \<in> set (tl (split sep cs))"
        by (cases "split sep cs") auto
      then show ?thesis
      proof
        assume "cw = hd (split sep cs)"
        with cw(2) have "includes_str (c # hd (split sep cs)) w" by simp
        with False show ?thesis by auto
      next
        assume "cw \<in> set (tl (split sep cs))"
        with cw(2) False show ?thesis by auto
      qed
    qed
  qed
qed

lemma includes_str_length: "includes_str s w \<Longrightarrow> length w \<le> length s"
proof (induction s)
  case Nil
  then show ?case by simp
next
  case (Cons c cs)
  then show ?case
    by (cases "startsWith (c # cs) w") (auto simp: startsWith_def dest: arg_cong [where f = length])
qed


lemma find_SomeD: "find P xs = Some x \<Longrightarrow> P x \<and> x \<in> set xs"
  by (induction xs) (auto split: if_splits)

lemma keywordMatch_None:
  "keywordMatch ps ws = None \<longleftrightarrow>
     (\<forall>w\<in>set ws. \<forall>q\<in>set ps. \<not> includes_str (toLowerCase (p_name q)) w)"
  by (induction ws) (auto simp: find_None_iff split: option.splits dest: find_SomeD)

lemma keywordMatch_Some:
  "keywordMatch ps ws = Some p \<Longrightarrow>
     \<exists>before w rest. ws = before @ w # rest \<and>
       (\<forall>w'\<in>set before. \<forall>q\<in>set ps. \<not> includes_str (toLowerCase (p_name q)) w') \<and>
       find (\<lambda>q. includes_str (toLowerCase (p_name q)) w) ps = Some p"
proof (induction ws)
  case Nil
  then show ?case by simp
next
  case (Cons x ws)
  show ?case
  proof (cases "find (\<lambda>q. includes_str (toLowerCase (p_name q)) x) ps")
    case None
    with Cons.prems have "keywordMatch ps ws = Some p" by simp
    with Cons.IH obtain before w rest where
      h: "ws = before @ w # rest"
         "\<forall>w'\<in>set before. \<forall>q\<in>set ps. \<not> includes_str (toLowerCase (p_name q)) w'"
         "find (\<lambda>q. includes_str (toLowerCase (p_name q)) w) ps = Some p"
      by blast
    from None have "\<forall>q\<in>set ps. \<not> includes_str (toLowerCase (p_name q)) x"
      by (simp add: find_None_iff)
    with h have "x # ws = (x # before) @ w # rest \<and>
       (\<forall>w'\<in>set (x # before). \<forall>q\<in>set ps. \<not> includes_str (toLowerCase (p_name q)) w') \<and>
       find (\<lambda>q. includes_str (toLowerCase (p_name q)) w) ps = Some p"
      by simp
    then show ?thesis by blast
  next
    case (Some q)
    with Cons.prems have "q = p" by simp
    with Some have "x # ws = [] @ x # ws \<and>
       (\<forall>w'\<in>set []. \<forall>q\<in>set ps. \<not> includes_str (toLowerCase (p_name q)) w') \<and>
       find (\<lambda>q. includes_str (toLowerCase (p_name q)) x) ps = Some p"
      by simp
    then show ?thesis by blast
  qed
qed

text \<open>
  A long word of the answer that occurs in a name occurs in a long word of that name: a
  word has no blank, so it lies inside one word of the name.
\<close>

lemma long_word_of_name:
  assumes "w \<in> set (longWords productName)"
    and "includes_str catalogName w"
  shows "\<exists>cw\<in>set (split CHR '' '' catalogName). 3 < length cw \<and> includes_str cw w"
proof -
  from assms(1) have w: "w \<in> set (split CHR '' '' productName)" "3 < length w"
    by (simp_all add: longWords_def)
  from w(1) have "CHR '' '' \<notin> set w" by (rule split_no_sep)
  from includes_str_split [OF this assms(2)]
  obtain cw where cw: "cw \<in> set (split CHR '' '' catalogName)" "includes_str cw w" by blast
  from cw(2) have "length w \<le> length cw" by (rule includes_str_length)
  with w(2) have "3 < length cw" by simp
  with cw show ?thesis by blast
qed

text \<open>
  C7, as amended. \<^verbatim>\<open>handleProductDetailNavigation\<close> resolves the answer of the Gateway, in
  lower case, against the catalog in this order, and the first match wins:
  \<^enum> the first product whose name, in lower case, equals the answer;
  \<^enum> else the first product whose name contains the answer or is contained in it;
  \<^enum> else, for the first word of the answer longer than 3 characters that occurs in a
    product name, the first product whose name contains it; the word then lies in a
    word of that catalog name that is itself longer than 3 characters.
  It navigates to the product found and returns true. When the answer is \<^verbatim>\<open>none\<close> or
  nothing matches, it returns false and the state only records the Gateway call.
\<close>

theorem product_detail_resolution:
  assumes "generateContent e productDetailNavigation transcript = Some r"
    and "productName = toLowerCase (trim r)"
    and "s1 = call productDetailNavigation transcript s"
  shows
    "(productName = ''none'' \<longrightarrow> handleProductDetailNavigation e transcript s = (False, s1)) \<and>
     (productName \<noteq> ''none'' \<longrightarrow>
        (case find (\<lambda>p. toLowerCase (p_name p) = productName) (products e) of
           Some p \<Rightarrow>
             handleProductDetailNavigation e transcript s =
               (True, emit (navigate (''/product/'' @ p_id p)) s1)
         | None \<Rightarrow>
             (case find (\<lambda>p. includes_str (toLowerCase (p_name p)) productName \<or>
                             includes_str productName (toLowerCase (p_name p))) (products e) of
                Some p \<Rightarrow>
                  handleProductDetailNavigation e transcript s =
                    (True, emit (navigate (''/product/'' @ p_id p)) s1)
              | None \<Rightarrow>
                  (if \<exists>w\<in>set (split CHR '' '' productName). 3 < length w \<and>
                        (\<exists>q\<in>set (products e). includes_str (toLowerCase (p_name q)) w)
                   then
                     \<exists>p w before rest.
                       handleProductDetailNavigation e transcript s =
                         (True, emit (navigate (''/product/'' @ p_id p)) s1) \<and>
                       filter (\<lambda>w. 3 < length w) (split CHR '' '' productName) = before @ w # rest \<and>
                       (\<forall>w'\<in>set before. \<forall>q\<in>set (products e).
                           \<not> includes_str (toLowerCase (p_name q)) w') \<and>
                       find (\<lambda>q. includes_str (toLowerCase (p_name q)) w) (products e) = Some p \<and>
                       (\<exists>cw\<in>set (split CHR '' '' (toLowerCase (p_name p))).
                           3 < length cw \<and> includes_str cw w)
                   else handleProductDetailNavigation e transcript s = (False, s1)))))"
proof (intro conjI impI)
  assume "productName = ''none''"
  with assms show "handleProductDetailNavigation e transcript s = (False, s1)"
    by (simp add: handleProductDetailNavigation_def Let_def)
next
  assume n: "productName \<noteq> ''none''"
  let ?H = "handleProductDetailNavigation e transcript s"
  let ?go = "\<lambda>p. (True, emit (navigate (''/product/'' @ p_id p)) s1)"
  let ?partial = "\<lambda>p. includes_str (toLowerCase (p_name p)) productName \<or>
                      includes_str productName (toLowerCase (p_name p))"
  have H: "?H = (case matchProduct (products e) productName of
                   Some p \<Rightarrow> ?go p | None \<Rightarrow> (False, s1))"
    using assms(1,2) n unfolding assms(3)
    by (simp add: handleProductDetailNavigation_def Let_def)
  have pm: "partialMatch (products e) productName = find ?partial (products e)"
    unfolding partialMatch_def by (rule arg_cong [where f = "\<lambda>P. find P (products e)"]) auto
  show "case find (\<lambda>p. toLowerCase (p_name p) = productName) (products e) of
           Some p \<Rightarrow> ?H = ?go p
         | None \<Rightarrow>
             (case find ?partial (products e) of
                Some p \<Rightarrow> ?H = ?go p
              | None \<Rightarrow>
                  (if \<exists>w\<in>set (split CHR '' '' productName). 3 < length w \<and>
                        (\<exists>q\<in>set (products e). includes_str (toLowerCase (p_name q)) w)
                   then
                     \<exists>p w before rest.
                       ?H = ?go p \<and>
                       filter (\<lambda>w. 3 < length w) (split CHR '' '' productName) = before @ w # rest \<and>
                       (\<forall>w'\<in>set before. \<forall>q\<in>set (products e).
                           \<not> includes_str (toLowerCase (p_name q)) w') \<and>
                       find (\<lambda>q. includes_str (toLowerCase (p_name q)) w) (products e) = Some p \<and>
                       (\<exists>cw\<in>set (split CHR '' '' (toLowerCase (p_name p))).
                           3 < length cw \<and> includes_str cw w)
                   else ?H = (False, s1)))"
  proof (cases "find (\<lambda>p. toLowerCase (p_name p) = productName) (products e)")
    case (Some p)
    then show ?thesis using H by (simp add: matchProduct_def exactMatch_def)
  next
    case exact: None
    show ?thesis
    proof (cases "find ?partial (products e)")
      case (Some p)
      then show ?thesis using H exact pm by (simp add: matchProduct_def exactMatch_def)
    next
      case partial: None
      have M: "matchProduct (products e) productName =
                 keywordMatch (products e) (longWords productName)"
        using exact partial pm by (simp add: matchProduct_def exactMatch_def)
      show ?thesis
      proof (cases "keywordMatch (products e) (longWords productName)")
        case None
        then have "\<not> (\<exists>w\<in>set (split CHR '' '' productName). 3 < length w \<and>
                        (\<exists>q\<in>set (products e). includes_str (toLowerCase (p_name q)) w))"
          by (auto simp: keywordMatch_None longWords_def)
        with None H M exact partial show ?thesis by simp
      next
        case (Some p)
        from keywordMatch_Some [OF Some] obtain before w rest where
          h: "longWords productName = before @ w # rest"
             "\<forall>w'\<in>set before. \<forall>q\<in>set (products e). \<not> includes_str (toLowerCase (p_name q)) w'"
             "find (\<lambda>q. includes_str (toLowerCase (p_name q)) w) (products e) = Some p"
          by blast
        from h(1) have wl: "w \<in> set (longWords productName)" by simp
        from h(3) have inc: "includes_str (toLowerCase (p_name p)) w" and pin: "p \<in> set (products e)"
          by (auto dest: find_SomeD)
        from long_word_of_name [OF wl inc]
        have cw: "\<exists>cw\<in>set (split CHR '' '' (toLowerCase (p_name p))). 3 < length cw \<and> includes_str cw w" .
        from wl have "w \<in> set (split CHR '' '' productName)" "3 < length w"
          by (simp_all add: longWords_def)
        with inc pin have ex: "\<exists>w\<in>set (split CHR '' '' productName). 3 < length w \<and>
                        (\<exists>q\<in>set (products e). includes_str (toLowerCase (p_name q)) w)"
          by blast
        have "?H = ?go p" using H M Some by simp
        with h cw have "\<exists>p w before rest.
                       ?H = ?go p \<and>
                       filter (\<lambda>w. 3 < length w) (split CHR '' '' productName) = before @ w # rest \<and>
                       (\<forall>w'\<in>set before. \<forall>q\<in>set (products e).
                           \<not> includes_str (toLowerCase (p_name q)) w') \<and>
                       find (\<lambda>q. includes_str (toLowerCase (p_name q)) w) (products e) = Some p \<and>
                       (\<exists>cw\<in>set (split CHR '' '' (toLowerCase (p_name p))).
                           3 < length cw \<and> includes_str cw w)"
          unfolding longWords_def by blast
        with ex exact partial show ?thesis by simp
      qed
    qed
  qed
qed

theorem product_detail_resolution_witness:
  "\<exists>p w before rest.
     handleProductDetailNavigation (demoEnv None (Some '' Shoe rack '') ''{}'' (JObj []) ''/'')
       ''show me the shoe rack'' initialState =
       (True, emit (navigate (''/product/'' @ p_id p))
                (call productDetailNavigation ''show me the shoe rack'' initialState)) \<and>
     filter (\<lambda>w. 3 < length w) (split CHR '' '' ''shoe rack'') = before @ w # rest \<and>
     (\<forall>w'\<in>set before. \<forall>q\<in>set demoProducts. \<not> includes_str (toLowerCase (p_name q)) w') \<and>
     find (\<lambda>q. includes_str (toLowerCase (p_name q)) w) demoProducts = Some p \<and>
     (\<exists>cw\<in>set (split CHR '' '' (toLowerCase (p_name p))). 3 < length cw \<and> includes_str cw w)"
proof -
  let ?e = "demoEnv None (Some '' Shoe rack '') ''{}'' (JObj []) ''/''"
  have g: "generateContent ?e productDetailNavigation ''show me the shoe rack'' = Some '' Shoe rack ''"
    by (simp add: demoEnv_def)
  have n: "''shoe rack'' = toLowerCase (trim '' Shoe rack '')"
    by (simp add: toLowerCase_def lowerChar_def trim_def isSpace_def)
  have p: "products ?e = demoProducts"
    by (simp add: demoEnv_def)
  have x: "find (\<lambda>p. toLowerCase (p_name p) = ''shoe rack'') demoProducts = None"
    by (simp add: demoProducts_def toLowerCase_def lowerChar_def)
  have y: "find (\<lambda>p. includes_str (toLowerCase (p_name p)) ''shoe rack'' \<or>
                     includes_str ''shoe rack'' (toLowerCase (p_name p))) demoProducts = None"
    by (simp add: demoProducts_def toLowerCase_def lowerChar_def startsWith_def)
  have z: "\<exists>w\<in>set (split CHR '' '' ''shoe rack''). 3 < length w \<and>
             (\<exists>q\<in>set demoProducts. includes_str (toLowerCase (p_name q)) w)"
    by (simp add: demoProducts_def toLowerCase_def lowerChar_def startsWith_def)
  from product_detail_resolution [OF g n refl, of initialState] x y z
  show ?thesis by (simp add: p)
qed

text \<open>
  C7 as it is worded, with the words of the catalog names as the keywords of the third
  attempt, fails on the code, whichever way the overlap is read. For the answer \<^verbatim>\<open>shoe rack\<close> no catalog name equals, contains or is contained
  in the answer, and no word of a catalog name longer than 3 characters occurs in it,
  yet the code navigates to \<^verbatim>\<open>Running Shoes\<close>, whose name contains the word \<^verbatim>\<open>shoe\<close> of
  the answer. For the answer \<^verbatim>\<open>a run\<close> the word \<^verbatim>\<open>run\<close> occurs in the catalog word
  \<^verbatim>\<open>running\<close>, yet the code finds nothing: the words that must be longer than 3
  characters are those of the answer.
\<close>

theorem keyword_words_counterexample:
  "handleProductDetailNavigation (demoEnv None (Some ''shoe rack'') ''{}'' (JObj []) ''/'')
     ''the shoe rack'' initialState =
     (True, emit (navigate ''/product/2'')
              (call productDetailNavigation ''the shoe rack'' initialState)) \<and>
   exactMatch demoProducts ''shoe rack'' = None \<and>
   partialMatch demoProducts ''shoe rack'' = None \<and>
   \<not> specNameWordInReference demoProducts ''shoe rack'' \<and>
   handleProductDetailNavigation (demoEnv None (Some ''a run'') ''{}'' (JObj []) ''/'')
     ''go for a run'' initialState =
     (False, call productDetailNavigation ''go for a run'' initialState) \<and>
   specReferenceWordInNameWord demoProducts ''a run''"
  by (simp add: eval_defs handleProductDetailNavigation_def matchProduct_def exactMatch_def
      partialMatch_def longWords_def specNameWords_def specNameWordInReference_def
      specReferenceWordInNameWord_def)

subsection \<open>Inherited keys of the reference maps\<close>

text \<open>
  What the normalizer does for every raw string whose lower case is not the name of a
  member of \<^verbatim>\<open>Object.prototype\<close>: the catalog entry with the same lower case when there is
  one, the raw string otherwise; normalizing the result again changes nothing; and an
  array of strings is mapped element by element, none dropped.
\<close>

lemma toLowerCase_Nil_iff [simp]: "toLowerCase c = [] \<longleftrightarrow> c = []"
  by (simp add: toLowerCase_def)

lemma referenceMap_Some:
  "referenceMap catalog k = Some x \<Longrightarrow> x \<in> set catalog \<and> toLowerCase x = k"
  by (auto simp: referenceMap_def fromEntries_def dest!: map_of_SomeD)

lemma referenceMap_None:
  "referenceMap catalog k = None \<longleftrightarrow> (\<forall>x\<in>set catalog. toLowerCase x \<noteq> k)"
  by (auto simp: referenceMap_def fromEntries_def map_of_eq_None_iff image_iff)

lemma normalizeFilterValue_canonical:
  assumes "toLowerCase c \<notin> set objectPrototype"
  shows "if \<exists>x\<in>set catalog. toLowerCase x = toLowerCase c
         then \<exists>x\<in>set catalog. toLowerCase x = toLowerCase c \<and>
                normalizeFilterValue catalog c = Str x
         else normalizeFilterValue catalog c = Str c"
proof (cases "referenceMap catalog (toLowerCase c)")
  case None
  then have "normalizeFilterValue catalog c = Str c"
    using assms by (simp add: normalizeFilterValue_def readKey_def)
  moreover from None have "\<not> (\<exists>x\<in>set catalog. toLowerCase x = toLowerCase c)"
    by (simp add: referenceMap_None)
  ultimately show ?thesis by simp
next
  case (Some x)
  from referenceMap_Some [OF Some] have x: "x \<in> set catalog" "toLowerCase x = toLowerCase c"
    by simp_all
  show ?thesis
  proof (cases "x = []")
    case True
    with x have "c = []" by (simp add: toLowerCase_def)
    with True x Some show ?thesis
      by (auto simp: normalizeFilterValue_def readKey_def)
  next
    case False
    with x Some show ?thesis
      by (auto simp: normalizeFilterValue_def readKey_def)
  qed
qed

lemma normalizeAny_idempotent:
  assumes "toLowerCase c \<notin> set objectPrototype"
  shows "andThen (normalizeAny catalog (Str c)) (normalizeAny catalog) =
         normalizeAny catalog (Str c)"
proof (cases "referenceMap catalog (toLowerCase c)")
  case None
  then show ?thesis
    using assms by (simp add: normalizeFilterValue_def readKey_def)
next
  case (Some x)
  from referenceMap_Some [OF Some] have x: "toLowerCase x = toLowerCase c" by simp
  with Some show ?thesis
    by (simp add: normalizeFilterValue_def readKey_def)
qed

lemma mapStrings_strings: "mapStrings f (map JStr cs) = Normal (map f cs)"
  by (induction cs) simp_all

text \<open>
  C2. The claim fails on the code at a raw value whose lower case is the name of a member
  of \<^verbatim>\<open>Object.prototype\<close> and no key of the reference map: \<^verbatim>\<open>colorMap["constructor"]\<close> is
  the inherited constructor, which is truthy, so the normalized value is that function
  and not the raw string. \<^verbatim>\<open>interpretFilterCommand\<close> hands it to \<^verbatim>\<open>updateFilters\<close>.
\<close>

theorem inherited_key_not_raw:
  "normalizeFilterValue (colors demoOptions) ''constructor'' = ProtoMember ''constructor'' \<and>
   interpretFilterCommand
     (demoEnv None (Some inheritedAnswer) inheritedAnswer inheritedParsed ''/products/gym'')
     ''show the constructor colour'' initialState =
   (''filters_updated'',
    emit (updateFilters [(''colors'', Values [ProtoMember ''constructor''])])
      (call filterCommand ''show the constructor colour'' initialState)) \<and>
   handleRemoveFilters
     (demoEnv None (Some inheritedAnswer) inheritedAnswer
        (JObj [(''isRemoveFilter'', JBool True), (''colors'', JArr [JStr ''Constructor''])])
        ''/products/gym'')
     ''remove the constructor colour'' initialState =
   (True,
    emit (removeFilter ''colors'' (Some [ProtoMember ''constructor'']))
      (call removeFilterCommand ''remove the constructor colour'' initialState))"
  by (simp add: eval_defs inheritedAnswer_def inheritedParsed_def)

text \<open>
  C9. The same defect breaks idempotence: the normalized value of \<^verbatim>\<open>"constructor"\<close> is
  not a string, and normalizing it again is a \<^verbatim>\<open>TypeError\<close>.
\<close>

theorem normalize_twice_throws:
  "normalizeAny (colors demoOptions) (Str ''constructor'') = Normal (ProtoMember ''constructor'') \<and>
   andThen (normalizeAny (colors demoOptions) (Str ''constructor''))
     (normalizeAny (colors demoOptions)) = Throw"
  by (simp add: eval_defs)

subsection \<open>Unhandled commands\<close>

text \<open>
  Every interpreter but the removal of filters leaves the trace of effects as it was
  when it returns false, and so does the dispatch on every category but
  \<^verbatim>\<open>remove_filter\<close>, a category outside the known set included.
\<close>

lemma productActionBody_unhandled:
  "productActionBody e product parsedAction s = (r, s') \<Longrightarrow> r \<noteq> Normal True \<Longrightarrow> effects s' = effects s"
  by (auto simp: productActionBody_def split: completion.splits option.splits if_splits)

lemma handleProductActions_unhandled:
  "handleProductActions e t s = (False, s') \<Longrightarrow> effects s' = effects s"
  by (auto simp: handleProductActions_def Let_def
      split: option.splits completion.splits if_splits prod.splits
      dest: productActionBody_unhandled)

lemma handleNavigationCommand_unhandled:
  "handleNavigationCommand e t s = (False, s') \<Longrightarrow> effects s' = effects s"
  by (auto simp: handleNavigationCommand_def Let_def split: option.splits completion.splits if_splits)

lemma handleOrderCompletion_unhandled:
  "handleOrderCompletion e t s = (False, s') \<Longrightarrow> effects s' = effects s"
  by (auto simp: handleOrderCompletion_def Let_def split: option.splits if_splits)

lemma handleUserInfoUpdate_unhandled:
  "handleUserInfoUpdate e t s = (False, s') \<Longrightarrow> effects s' = effects s"
  by (auto simp: handleUserInfoUpdate_def Let_def split: option.splits completion.splits if_splits)

lemma handleCartNavigation_unhandled:
  "handleCartNavigation e t s = (False, s') \<Longrightarrow> effects s' = effects s"
  by (auto simp: handleCartNavigation_def Let_def split: option.splits if_splits)

lemma handleCategoryNavigation_unhandled:
  "handleCategoryNavigation e t s = (False, s') \<Longrightarrow> effects s' = effects s"
  by (auto simp: handleCategoryNavigation_def Let_def split: option.splits if_splits)

lemma handleProductDetailNavigation_unhandled:
  "handleProductDetailNavigation e t s = (False, s') \<Longrightarrow> effects s' = effects s"
  by (auto simp: handleProductDetailNavigation_def Let_def split: option.splits if_splits)

lemma interpretFilterCommand_unknown:
  "interpretFilterCommand e t s = (r, s') \<Longrightarrow> r \<noteq> ''filters_updated'' \<Longrightarrow> effects s' = effects s"
  by (auto simp: interpretFilterCommand_def Let_def split: option.splits completion.splits if_splits)

lemma interpretCommand_effects:
  "interpretCommand e t s = (a, s') \<Longrightarrow> effects s' = effects s"
  by (auto simp: interpretCommand_def Let_def split: option.splits if_splits)

lemma generalAction_unhandled:
  "generalAction e a s = (False, s') \<Longrightarrow> effects s' = effects s"
  by (auto simp: generalAction_def split: if_splits)

lemma general_command_unhandled:
  assumes "interpretCommand e command s = (action, s1)"
    and "generalAction e action s1 = (False, s')"
  shows "effects s' = effects s"
proof -
  from assms(1) have "effects s1 = effects s" by (rule interpretCommand_effects)
  moreover from assms(2) have "effects s' = effects s1" by (rule generalAction_unhandled)
  ultimately show ?thesis by simp
qed

lemma unhandled_leaves_effects:
  assumes "primaryIntent \<noteq> ''remove_filter''"
    and "secondTier e primaryIntent command s = (False, s')"
  shows "effects s' = effects s"
  using assms
  by (auto simp: secondTier_def split: if_splits prod.splits
      dest: handleNavigationCommand_unhandled handleOrderCompletion_unhandled
        handleUserInfoUpdate_unhandled handleCartNavigation_unhandled
        handleProductActions_unhandled handleProductDetailNavigation_unhandled
        handleCategoryNavigation_unhandled interpretFilterCommand_unknown
        general_command_unhandled)

text \<open>
  C4. The claim fails on the pathway \<^verbatim>\<open>remove_filter\<close>: for a removal with colours
  \<^verbatim>\<open>["red"]\<close> and sizes \<^verbatim>\<open>[10]\<close>, \<^verbatim>\<open>handleRemoveFilters\<close> removes the colour from the store,
  throws on the number, and returns false, so \<^verbatim>\<open>handleVoiceCommand\<close> logs the command as
  not handled although the filter store was changed.
\<close>

theorem remove_filter_partial_failure:
  \<open>handleVoiceCommand
     (demoEnv (Some ''remove_filter'') (Some removalAnswer) removalAnswer removalParsed
        ''/products/gym'')
     ''remove red and size ten'' initialState =
   \<lparr>actionLog =
      [(''No handler processed: "remove red and size ten"'', False),
       (''Identified primary intent: remove_filter'', True),
       (''Processing command: "remove red and size ten"'', True)],
    consecutiveErrors = 1, isListening = False, restarts = 0,
    gatewayCalls =
      [(masterIntentClassifier, ''remove red and size ten''),
       (removeFilterCommand, ''remove red and size ten'')],
    effects = [removeFilter ''colors'' (Some [Str ''Red''])]\<rparr>\<close>
  by (simp add: eval_defs removalAnswer_def removalParsed_def)

text \<open>A tag outside the four known ones changes nothing and falls through to \<^verbatim>\<open>return true\<close>.\<close>

lemma unknown_tag_general:
  assumes "getProp parsedAction ''action'' = Normal (Some (JStr tag))"
    and "tag \<notin> set [''none'', ''size'', ''quantity'', ''addToCart'']"
  shows "productActionBody e product parsedAction s = (Normal True, s)"
  using assms by (simp add: productActionBody_def)

text \<open>
  C8. The claim fails on the code: for a tag that is none of \<^verbatim>\<open>none\<close>, \<^verbatim>\<open>size\<close>,
  \<^verbatim>\<open>quantity\<close>, \<^verbatim>\<open>addToCart\<close>, \<^verbatim>\<open>handleProductActions\<close> changes nothing but returns
  true, where it returns false for the tag \<^verbatim>\<open>none\<close>.
\<close>

theorem unknown_tag_reported_handled:
  "handleProductActions
     (demoEnv None (Some sparkleAnswer) sparkleAnswer sparkleParsed ''/product/2'')
     ''make it sparkle'' initialState =
   (True, call productAction ''make it sparkle'' initialState) \<and>
   handleProductActions
     (demoEnv None (Some sparkleAnswer) sparkleAnswer (JObj [(''action'', JStr ''none'')])
        ''/product/2'')
     ''make it sparkle'' initialState =
   (False, call productAction ''make it sparkle'' initialState)"
  by (simp add: eval_defs sparkleAnswer_def sparkleParsed_def)

end
